theory Spec2Isabelle
  imports Complex_Main "HOL-Library.Word"
begin

section \<open>The temperature module of Waybar\<close>

text \<open>
  A shallow embedding of \<^verbatim>\<open>src/modules/temperature.cpp\<close> and
  \<^verbatim>\<open>include/modules/temperature.hpp\<close>: the constructor, which resolves the sensor
  file, and \<^verbatim>\<open>update\<close>, which reads the sensor, classifies the reading against the
  thresholds and renders it. The preprocessor branch \<^verbatim>\<open>defined(__FreeBSD__)\<close> is a
  parameter of the model, so that both platforms are covered.
\<close>

subsection \<open>Configuration values\<close>

text \<open>
  \<^verbatim>\<open>config_\<close> is a \<^verbatim>\<open>Json::Value\<close> of the JsonCpp library. The module looks at
  it only through \<^verbatim>\<open>operator[]\<close>, \<^verbatim>\<open>isString\<close>, \<^verbatim>\<open>asString\<close>, \<^verbatim>\<open>isInt\<close>,
  \<^verbatim>\<open>asInt\<close>, \<^verbatim>\<open>isArray\<close> and iteration over an array; these are modelled after the
  library. A key that is absent reads as \<open>JNull\<close>. Real numbers are left out of the
  value type.
\<close>

datatype json = JNull | JBool bool | JInt int | JString string | JArray "json list" | JObject

type_synonym config = "string \<Rightarrow> json"

datatype error = RuntimeError string | JsonLogicError | FilesystemError | FormatError

definition isString :: "json \<Rightarrow> bool" where
  "isString j = (case j of JString s \<Rightarrow> True | _ \<Rightarrow> False)"

text \<open>\<^verbatim>\<open>isInt\<close> holds for an integer that fits the 32-bit \<^verbatim>\<open>Json::Int\<close>.\<close>

definition isInt :: "json \<Rightarrow> bool" where
  "isInt j = (case j of JInt i \<Rightarrow> - (2 ^ 31) \<le> i \<and> i \<le> 2 ^ 31 - 1 | _ \<Rightarrow> False)"

definition asInt :: "json \<Rightarrow> int" where
  "asInt j = (case j of JInt i \<Rightarrow> i | _ \<Rightarrow> 0)"

definition digit_char :: "nat \<Rightarrow> char" where
  "digit_char n = char_of (48 + n)"

fun show_nat :: "nat \<Rightarrow> string" where
  "show_nat n = (if n < 10 then [digit_char n] else show_nat (n div 10) @ [digit_char (n mod 10)])"

declare show_nat.simps [simp del]

definition show_int :: "int \<Rightarrow> string" where
  "show_int i = (if i < 0 then CHR ''-'' # show_nat (nat (- i)) else show_nat (nat i))"

text \<open>
  \<^verbatim>\<open>asString\<close> converts null, booleans and numbers and throws on an array or an
  object. Where the module calls it on a value that \<^verbatim>\<open>isString\<close> has accepted, the
  result is the string itself.
\<close>

definition asString :: "json \<Rightarrow> error + string" where
  "asString j = (case j of
      JNull \<Rightarrow> Inr []
    | JBool b \<Rightarrow> Inr (if b then ''true'' else ''false'')
    | JInt i \<Rightarrow> Inr (show_int i)
    | JString s \<Rightarrow> Inr s
    | JArray xs \<Rightarrow> Inl JsonLogicError
    | JObject \<Rightarrow> Inl JsonLogicError)"

definition string_of :: "json \<Rightarrow> string" where
  "string_of j = (case j of JString s \<Rightarrow> s | _ \<Rightarrow> [])"

subsection \<open>The platform: files, sysctl and the external collaborators\<close>

datatype platform = Linux | FreeBSD

datatype SensorType = TEMPERATURE | FAN | POWER

text \<open>
  What \<^verbatim>\<open>std::ifstream(path)\<close> is right after construction: not open, or open with
  the bytes of the file. The constructor sets \<^verbatim>\<open>failbit\<close> only when the open fails,
  so at that point \<^verbatim>\<open>good()\<close> holds exactly when \<^verbatim>\<open>is_open()\<close> does.
\<close>

datatype ifstream = NotOpen | OpenGood string

definition is_open :: "ifstream \<Rightarrow> bool" where
  "is_open s = (s \<noteq> NotOpen)"

definition good :: "ifstream \<Rightarrow> bool" where
  "good s = is_open s"

text \<open>
  What iterating a \<^verbatim>\<open>directory_iterator\<close> gives: the paths of the entries in its
  order, up to the end of the directory or up to a \<^verbatim>\<open>filesystem_error\<close>, which the
  construction of the iterator or any of its increments can throw.
\<close>

datatype dirstream = DirEnd | DirEntry string dirstream | DirError

text \<open>
  The file system as the module queries it. \<^verbatim>\<open>std::filesystem::exists\<close> and
  \<^verbatim>\<open>is_directory\<close> are called in their throwing form: the answer \<open>None\<close> stands for
  a status that cannot be determined (a name that is too long, a directory that may not be
  searched), on which they throw \<^verbatim>\<open>filesystem_error\<close>.
\<close>

record filesystem =
  fs_present :: "string \<Rightarrow> bool option"
  fs_directory :: "string \<Rightarrow> bool option"
  fs_entries :: "string \<Rightarrow> dirstream"
  fs_stream :: "string \<Rightarrow> ifstream"

text \<open>The empty path names nothing: it does not exist and cannot be opened.\<close>

definition fs_exists :: "filesystem \<Rightarrow> string \<Rightarrow> error + bool" where
  "fs_exists fs p =
    (if p = [] then Inr False
     else (case fs_present fs p of None \<Rightarrow> Inl FilesystemError | Some b \<Rightarrow> Inr b))"

definition is_directory :: "filesystem \<Rightarrow> string \<Rightarrow> error + bool" where
  "is_directory fs p =
    (if p = [] then Inr False
     else (case fs_directory fs p of None \<Rightarrow> Inl FilesystemError | Some b \<Rightarrow> Inr b))"

definition open_ifstream :: "filesystem \<Rightarrow> string \<Rightarrow> ifstream" where
  "open_ifstream fs p = (if p = [] then NotOpen else fs_stream fs p)"

text \<open>The arguments handed to \<^verbatim>\<open>fmt::format\<close>; the tooltip call passes no icon.\<close>

record fmt_args =
  arg_temperatureC :: "16 word"
  arg_temperatureF :: "16 word"
  arg_temperatureK :: "16 word"
  arg_icon :: "string option"
  arg_fan :: "16 word"
  arg_power :: "16 word"

text \<open>
  Collaborators outside the module: \<^verbatim>\<open>fmt::format\<close> (which can throw on a template
  it rejects), \<^verbatim>\<open>ALabel::getIcon\<close>, \<^verbatim>\<open>tooltipEnabled()\<close> and, on FreeBSD,
  \<^verbatim>\<open>sysctlbyname\<close> (\<open>Some v\<close> when the call returns 0 and stores \<open>v\<close>).
\<close>

record env =
  fmt_format :: "string \<Rightarrow> fmt_args \<Rightarrow> error + string"
  getIcon :: "16 word \<Rightarrow> string \<Rightarrow> int \<Rightarrow> string"
  tooltipEnabled :: bool
  sysctlbyname :: "string \<Rightarrow> int option"

subsection \<open>Floating point\<close>

text \<open>
  A \<^verbatim>\<open>float\<close> or \<^verbatim>\<open>double\<close> value is the rational number it denotes. Each
  operation of the source is the exact operation followed by IEEE 754 rounding to
  nearest, ties to even, at 24 bits (\<^verbatim>\<open>float\<close>) or 53 bits (\<^verbatim>\<open>double\<close>) of
  precision. The values of this module stay far inside the exponent range of both
  formats, so neither overflow nor subnormal numbers arise and the exponent is not
  bounded in the model.
\<close>

text \<open>\<open>ilog2_ge1 x\<close> is the integer logarithm of \<open>x \<ge> 1\<close> to base 2, rounded down.\<close>

function ilog2_ge1 :: "rat \<Rightarrow> nat" where
  "ilog2_ge1 x = (if x < 2 then 0 else Suc (ilog2_ge1 (x / 2)))"
  by pat_completeness auto
termination
proof (relation "measure (\<lambda>x. nat \<lfloor>x\<rfloor>)")
  show "wf (measure (\<lambda>x::rat. nat \<lfloor>x\<rfloor>))" by simp
next
  fix x :: rat
  assume "\<not> x < 2"
  then have x2: "2 \<le> x" by simp
  then have "\<lfloor>x / 2\<rfloor> < \<lfloor>x\<rfloor>" by (simp add: floor_less_iff) linarith
  moreover have "0 < \<lfloor>x\<rfloor>" using x2 by (simp add: floor_less_iff)
  ultimately show "(x / 2, x) \<in> measure (\<lambda>x. nat \<lfloor>x\<rfloor>)" by simp
qed

text \<open>For \<open>0 < x < 1\<close>, \<open>ilog2_lt1 x\<close> is the least \<open>k\<close> with \<open>1 \<le> x * 2 ^ k\<close>.\<close>

function ilog2_lt1 :: "rat \<Rightarrow> nat" where
  "ilog2_lt1 x = (if x \<le> 0 \<or> 1 \<le> x then 0 else Suc (ilog2_lt1 (2 * x)))"
  by pat_completeness auto
termination
proof (relation "measure (\<lambda>x. nat \<lceil>1 / x\<rceil>)")
  show "wf (measure (\<lambda>x::rat. nat \<lceil>1 / x\<rceil>))" by simp
next
  fix x :: rat
  assume "\<not> (x \<le> 0 \<or> 1 \<le> x)"
  then have x: "0 < x" "x < 1" by simp_all
  then have "1 < 1 / x" by simp
  then have c: "2 \<le> \<lceil>1 / x\<rceil>" by linarith
  have "1 / (2 * x) = (1 / x) / 2" by simp
  moreover have "(1 / x) / 2 \<le> of_int \<lceil>1 / x\<rceil> / 2" by simp
  moreover have "of_int \<lceil>1 / x\<rceil> / 2 \<le> (of_int (\<lceil>1 / x\<rceil> - 1) :: rat)" using c by simp
  ultimately have "\<lceil>1 / (2 * x)\<rceil> \<le> \<lceil>1 / x\<rceil> - 1"
    by (metis (no_types) ceiling_le order_trans)
  then have "nat \<lceil>1 / (2 * x)\<rceil> < nat \<lceil>1 / x\<rceil>" using c by linarith
  then show "(2 * x, x) \<in> measure (\<lambda>x. nat \<lceil>1 / x\<rceil>)" by (simp only: in_measure)
qed

declare ilog2_ge1.simps [simp del]
declare ilog2_lt1.simps [simp del]

text \<open>The binary exponent \<open>e\<close> of \<open>x \<noteq> 0\<close>: \<open>2 ^ e \<le> \<bar>x\<bar> < 2 ^ (e + 1)\<close>.\<close>

definition expo :: "rat \<Rightarrow> int" where
  "expo x = (if 1 \<le> \<bar>x\<bar> then int (ilog2_ge1 \<bar>x\<bar>) else - int (ilog2_lt1 \<bar>x\<bar>))"

text \<open>Rounding to the nearest integer, ties to the even one.\<close>

definition rne :: "rat \<Rightarrow> int" where
  "rne y = (let f = \<lfloor>y\<rfloor>; d = y - of_int f in
     if d < 1 / 2 then f else if 1 / 2 < d then f + 1 else if even f then f else f + 1)"

text \<open>
  \<open>fl p x\<close> rounds \<open>x\<close> to \<open>p\<close> significant bits: the spacing of the \<open>p\<close>-bit numbers
  around \<open>x\<close> is \<open>2 ^ (e - p + 1)\<close>.
\<close>

definition fl :: "nat \<Rightarrow> rat \<Rightarrow> rat" where
  "fl p x = (let u = 2 powi (expo x - int p + 1) in of_int (rne (x / u)) * u)"

definition to_float :: "rat \<Rightarrow> rat" where
  "to_float x = fl 24 x"

definition to_double :: "rat \<Rightarrow> rat" where
  "to_double x = fl 53 x"

text \<open>\<^verbatim>\<open>std::round\<close>: to the nearest integer, halfway cases away from zero.\<close>

definition std_round :: "rat \<Rightarrow> int" where
  "std_round x = (if 0 \<le> x then \<lfloor>x + 1 / 2\<rfloor> else - \<lfloor>- x + 1 / 2\<rfloor>)"

text \<open>
  The conversion of a rounded floating value to \<^verbatim>\<open>uint16_t\<close>. From 0 to 65535 it is
  exact. Outside that range ISO C++ leaves the conversion undefined, and the model follows
  the code that GCC and Clang generate for x86-64: the value is converted to a 32-bit
  integer (\<^verbatim>\<open>cvttss2si\<close>, \<^verbatim>\<open>cvttsd2si\<close>) and the low 16 bits are stored. Within
  the 32-bit range that is the value modulo \<open>2 ^ 16\<close>; outside it the instruction yields
  the bit pattern \<^verbatim>\<open>0x80000000\<close>, whose low half is 0.
\<close>

definition to_uint16 :: "int \<Rightarrow> 16 word" where
  "to_uint16 i = (if - (2 ^ 31) \<le> i \<and> i < 2 ^ 31 then word_of_int i else 0)"

subsection \<open>Reading the sensor\<close>

definition isspace :: "char \<Rightarrow> bool" where
  "isspace c = (c \<in> set [CHR '' '', CHR 0x09, CHR 0x0A, CHR 0x0B, CHR 0x0C, CHR 0x0D])"

definition isdigit :: "char \<Rightarrow> bool" where
  "isdigit c = (c \<in> set ''0123456789'')"

definition digits_val :: "string \<Rightarrow> int" where
  "digits_val ds = foldl (\<lambda>a c. 10 * a + (int (of_char c) - 48)) 0 ds"

definition LONG_MAX :: int where
  "LONG_MAX = 2 ^ 63 - 1"

definition LONG_MIN :: int where
  "LONG_MIN = - (2 ^ 63)"

text \<open>
  \<^verbatim>\<open>std::strtol(s, nullptr, 10)\<close> with a 64-bit \<^verbatim>\<open>long\<close>: white space is skipped,
  one sign is accepted, the longest run of decimal digits is converted and anything after
  it is ignored; without a digit the result is 0; a value out of range is clamped.
  \<open>subject_digits\<close> is the run of digits that is converted.
\<close>

definition subject_digits :: "string \<Rightarrow> string" where
  "subject_digits s =
    (let s1 = dropWhile isspace s;
         s2 = (case s1 of [] \<Rightarrow> [] | c # r \<Rightarrow> if c = CHR ''-'' \<or> c = CHR ''+'' then r else s1)
     in takeWhile isdigit s2)"

definition strtol :: "string \<Rightarrow> int" where
  "strtol s =
    (let s1 = dropWhile isspace s;
         neg = (case s1 of [] \<Rightarrow> False | c # r \<Rightarrow> c = CHR ''-'');
         v = digits_val (subject_digits s)
     in if neg then max LONG_MIN (- v) else min LONG_MAX v)"

text \<open>\<^verbatim>\<open>getline\<close>: the bytes before the first newline.\<close>

definition getline :: "string \<Rightarrow> string" where
  "getline content = takeWhile (\<lambda>c. c \<noteq> CHR 0x0A) content"

text \<open>
  The object; a member \<^verbatim>\<open>name_\<close> of the source is the field \<open>name_m\<close>.
  \<^verbatim>\<open>config_\<close> and \<^verbatim>\<open>format_\<close> are members of the base class.
\<close>

record Temperature =
  config_m :: config
  format_m :: string
  file_path_m :: string
  sensor_type_m :: SensorType

definition thermal_zone :: "config \<Rightarrow> int" where
  "thermal_zone cfg =
    (if isInt (cfg ''thermal-zone'') then asInt (cfg ''thermal-zone'') else 0)"

definition cant_open :: "string \<Rightarrow> error" where
  "cant_open p = RuntimeError (''Can'' @ [CHR 0x27] @ ''t open '' @ p)"

definition cant_read :: "string \<Rightarrow> error" where
  "cant_read p = RuntimeError (''Can'' @ [CHR 0x27] @ ''t read from '' @ p)"

definition only_temperature :: error where
  "only_temperature =
    RuntimeError ''Only temperature sensor reading is supported in FreeBSD''"

definition sysctl_failed :: "int \<Rightarrow> error" where
  "sysctl_failed zone = RuntimeError (''sysctl hw.acpi.thermal.tz'' @ show_int zone @
     ''.temperature and dev.cpu.'' @ show_int zone @ ''.temperature failed'')"

text \<open>
  \<^verbatim>\<open>getReadings\<close> (lines 149 to 197). On FreeBSD the reading comes from
  \<^verbatim>\<open>sysctlbyname\<close>, in \<^verbatim>\<open>float\<close> arithmetic. Elsewhere the file is opened, one
  line is read and converted; \<^verbatim>\<open>reading / 1000.0\<close> is a \<^verbatim>\<open>double\<close> division
  whose result is narrowed to the \<^verbatim>\<open>float\<close> that the function returns.
\<close>

definition bsd_celsius :: "int \<Rightarrow> rat" where
  "bsd_celsius temp = to_float (to_float (to_float (of_int temp) - 2732) / 10)"

definition getReadings :: "platform \<Rightarrow> env \<Rightarrow> filesystem \<Rightarrow> Temperature \<Rightarrow> error + rat" where
  "getReadings pf ev fs t =
    (case pf of
      FreeBSD \<Rightarrow>
        if sensor_type_m t \<noteq> TEMPERATURE then Inl only_temperature
        else
          let zone = thermal_zone (config_m t) in
          (case sysctlbyname ev (''dev.cpu.'' @ show_int zone @ ''.temperature'') of
            Some temp \<Rightarrow> Inr (bsd_celsius temp)
          | None \<Rightarrow>
            (case sysctlbyname ev (''hw.acpi.thermal.tz'' @ show_int zone @ ''.temperature'') of
              Some temp \<Rightarrow> Inr (bsd_celsius temp)
            | None \<Rightarrow> Inl (sysctl_failed zone)))
    | Linux \<Rightarrow>
        (case open_ifstream fs (file_path_m t) of
          NotOpen \<Rightarrow> Inl (cant_open (file_path_m t))
        | OpenGood content \<Rightarrow>
            if \<not> good (OpenGood content) then Inl (cant_read (file_path_m t))
            else
              let reading = strtol (getline content) in
              (case sensor_type_m t of
                TEMPERATURE \<Rightarrow> Inr (to_float (to_double (to_double (of_int reading) / 1000)))
              | FAN \<Rightarrow> Inr (to_float (of_int reading))
              | POWER \<Rightarrow> Inr (to_float (to_double (to_double (of_int reading) / 1000000))))))"

subsection \<open>The constructor\<close>

text \<open>Lines 15 to 19: the three tests run in turn on the default \<open>TEMPERATURE\<close>.\<close>

definition parse_type :: "config \<Rightarrow> SensorType" where
  "parse_type cfg =
    (if isString (cfg ''type'') then
       (let t1 = (if string_of (cfg ''type'') = ''temperature'' then TEMPERATURE else TEMPERATURE);
            t2 = (if string_of (cfg ''type'') = ''fan'' then FAN else t1);
            t3 = (if string_of (cfg ''type'') = ''power'' then POWER else t2)
        in t3)
     else TEMPERATURE)"

text \<open>
  \<^verbatim>\<open>traverseAsArray\<close> (lines 21 to 27). The callback reads and writes
  \<^verbatim>\<open>file_path_\<close>, so it takes the path and the current \<^verbatim>\<open>file_path_\<close> and returns
  its verdict with the new one, or the exception it throws. The array loop stops at the
  first item the callback accepts; \<^verbatim>\<open>asString\<close> on an item can throw.
\<close>

fun traverse_items ::
  "(string \<Rightarrow> string \<Rightarrow> error + bool \<times> string) \<Rightarrow> json list \<Rightarrow> string \<Rightarrow> error + string" where
  "traverse_items check_set_path [] fp = Inr fp"
| "traverse_items check_set_path (item # items) fp =
    (case asString item of
      Inl e \<Rightarrow> Inl e
    | Inr p \<Rightarrow>
        (case check_set_path p fp of
          Inl e \<Rightarrow> Inl e
        | Inr (True, fp') \<Rightarrow> Inr fp'
        | Inr (False, fp') \<Rightarrow> traverse_items check_set_path items fp'))"

definition traverseAsArray ::
  "json \<Rightarrow> (string \<Rightarrow> string \<Rightarrow> error + bool \<times> string) \<Rightarrow> string \<Rightarrow> error + string" where
  "traverseAsArray v check_set_path fp =
    (case v of
      JString s \<Rightarrow>
        (case check_set_path s fp of Inl e \<Rightarrow> Inl e | Inr (accepted, fp') \<Rightarrow> Inr fp')
    | JArray items \<Rightarrow> traverse_items check_set_path items fp
    | _ \<Rightarrow> Inr fp)"

text \<open>The callback of lines 30 to 34.\<close>

definition check_hwmon_path ::
  "filesystem \<Rightarrow> string \<Rightarrow> string \<Rightarrow> error + bool \<times> string" where
  "check_hwmon_path fs p fp =
    (case fs_exists fs p of
      Inl e \<Rightarrow> Inl e
    | Inr found \<Rightarrow> if \<not> found then Inr (False, fp) else Inr (True, p))"

text \<open>\<^verbatim>\<open>path::filename()\<close>: what follows the last separator.\<close>

definition filename :: "string \<Rightarrow> string" where
  "filename p = rev (takeWhile (\<lambda>c. c \<noteq> CHR ''/'') (rev p))"

definition starts_with :: "string \<Rightarrow> string \<Rightarrow> bool" where
  "starts_with s pre = (take (length pre) s = pre)"

text \<open>The \<^verbatim>\<open>any_of\<close> over the directory (lines 40 to 45) and its callback (38 to 46).\<close>

fun any_hwmon :: "string \<Rightarrow> dirstream \<Rightarrow> string \<Rightarrow> error + bool \<times> string" where
  "any_hwmon input_filename DirEnd fp = Inr (False, fp)"
| "any_hwmon input_filename DirError fp = Inl FilesystemError"
| "any_hwmon input_filename (DirEntry hwmon rest) fp =
    (if \<not> starts_with (filename hwmon) ''hwmon'' then any_hwmon input_filename rest fp
     else Inr (True, hwmon @ ''/'' @ input_filename))"

definition check_hwmon_path_abs ::
  "filesystem \<Rightarrow> config \<Rightarrow> string \<Rightarrow> string \<Rightarrow> error + bool \<times> string" where
  "check_hwmon_path_abs fs cfg p fp =
    (case is_directory fs p of
      Inl e \<Rightarrow> Inl e
    | Inr dir \<Rightarrow>
        if \<not> dir then Inr (False, fp)
        else any_hwmon (string_of (cfg ''input-filename'')) (fs_entries fs p) fp)"

definition thermal_zone_path :: "config \<Rightarrow> string" where
  "thermal_zone_path cfg =
    ''/sys/class/thermal/thermal_zone'' @ show_int (thermal_zone cfg) @ ''/temp''"

text \<open>The three resolution steps of lines 29 to 52, each on the current \<^verbatim>\<open>file_path_\<close>.\<close>

definition step_hwmon_path :: "filesystem \<Rightarrow> config \<Rightarrow> string \<Rightarrow> error + string" where
  "step_hwmon_path fs cfg fp = traverseAsArray (cfg ''hwmon-path'') (check_hwmon_path fs) fp"

definition step_hwmon_path_abs :: "filesystem \<Rightarrow> config \<Rightarrow> string \<Rightarrow> error + string" where
  "step_hwmon_path_abs fs cfg fp =
    (if fp = [] \<and> isString (cfg ''input-filename'')
     then traverseAsArray (cfg ''hwmon-path-abs'') (check_hwmon_path_abs fs cfg) fp
     else Inr fp)"

definition step_thermal_zone :: "config \<Rightarrow> SensorType \<Rightarrow> string \<Rightarrow> string" where
  "step_thermal_zone cfg ty fp =
    (if fp = [] \<and> ty = TEMPERATURE then thermal_zone_path cfg else fp)"

definition resolve_path :: "filesystem \<Rightarrow> config \<Rightarrow> SensorType \<Rightarrow> error + string" where
  "resolve_path fs cfg ty =
    (case step_hwmon_path fs cfg [] of
      Inl e \<Rightarrow> Inl e
    | Inr fp1 \<Rightarrow>
        (case step_hwmon_path_abs fs cfg fp1 of
          Inl e \<Rightarrow> Inl e
        | Inr fp2 \<Rightarrow> Inr (step_thermal_zone cfg ty fp2)))"

text \<open>
  Modelled from the spec: the constructor of the base class \<^verbatim>\<open>ALabel\<close>, which is not
  among the sources, sets \<^verbatim>\<open>format_\<close>. The spec has the template "sourced from
  configuration, falling back to a built-in default pattern when unset"; the default is
  the one the constructor passes on line 11 (the degree sign is two bytes of UTF-8).
\<close>

definition default_format :: string where
  "default_format = ''{temperatureC}'' @ [CHR 0xC2, CHR 0xB0] @ ''C''"

definition ALabel_format :: "config \<Rightarrow> string" where
  "ALabel_format cfg = (if isString (cfg ''format'') then string_of (cfg ''format'') else default_format)"

text \<open>
  The constructor (lines 10 to 70). On FreeBSD the whole block of lines 15 to 63 is
  compiled out. The thread that emits the refresh signal is outside the model.
\<close>

definition Temperature_new :: "platform \<Rightarrow> filesystem \<Rightarrow> config \<Rightarrow> error + Temperature" where
  "Temperature_new pf fs cfg =
    (case pf of
      FreeBSD \<Rightarrow>
        Inr \<lparr>config_m = cfg, format_m = ALabel_format cfg, file_path_m = [],
             sensor_type_m = TEMPERATURE\<rparr>
    | Linux \<Rightarrow>
        (case resolve_path fs cfg (parse_type cfg) of
          Inl e \<Rightarrow> Inl e
        | Inr fp \<Rightarrow>
            (case open_ifstream fs fp of
              NotOpen \<Rightarrow> Inl (cant_open fp)
            | OpenGood content \<Rightarrow>
                if \<not> good (OpenGood content) then Inl (cant_read fp)
                else
                  Inr \<lparr>config_m = cfg, format_m = ALabel_format cfg, file_path_m = fp,
                       sensor_type_m = parse_type cfg\<rparr>)))"

subsection \<open>The tick\<close>

text \<open>
  The display surface: the style classes of \<^verbatim>\<open>label_\<close>, whether \<^verbatim>\<open>event_box_\<close>
  is shown, and the texts last set on the label.
\<close>

record display =
  style_classes :: "string set"
  event_box_shown :: bool
  label_markup :: string
  label_tooltip :: string

text \<open>
  Lines 199 to 207. The \<^verbatim>\<open>uint16_t\<close> argument is promoted to \<^verbatim>\<open>int\<close> for the
  comparison with \<^verbatim>\<open>asInt()\<close>.
\<close>

definition isWarning :: "Temperature \<Rightarrow> 16 word \<Rightarrow> bool" where
  "isWarning t temperature_c =
    (isInt (config_m t ''warning-threshold'') \<and>
     asInt (config_m t ''warning-threshold'') \<le> uint temperature_c)"

definition isCritical :: "Temperature \<Rightarrow> 16 word \<Rightarrow> bool" where
  "isCritical t temperature_c =
    (isInt (config_m t ''critical-threshold'') \<and>
     asInt (config_m t ''critical-threshold'') \<le> uint temperature_c)"

definition add_class :: "string \<Rightarrow> display \<Rightarrow> display" where
  "add_class c d = d\<lparr>style_classes := insert c (style_classes d)\<rparr>"

definition remove_class :: "string \<Rightarrow> display \<Rightarrow> display" where
  "remove_class c d = d\<lparr>style_classes := style_classes d - {c}\<rparr>"

text \<open>Lines 76 to 88: the template and the style classes.\<close>

definition select_format :: "Temperature \<Rightarrow> bool \<Rightarrow> bool \<Rightarrow> display \<Rightarrow> string \<times> display" where
  "select_format t critical warning d =
    (if critical then
       (if isString (config_m t ''format-critical'')
        then string_of (config_m t ''format-critical'') else format_m t,
        add_class ''critical'' d)
     else
       (let d1 = remove_class ''critical'' d in
        if warning then
          (if isString (config_m t ''format-warning'')
           then string_of (config_m t ''format-warning'') else format_m t,
           add_class ''warning'' d1)
        else (format_m t, remove_class ''warning'' d1)))"

text \<open>
  Lines 100 to 117: the values substituted. \<^verbatim>\<open>readings * 1.8 + 32\<close> and
  \<^verbatim>\<open>readings + 273.15\<close> are \<^verbatim>\<open>double\<close> arithmetic on the \<^verbatim>\<open>uint16_t\<close>
  \<^verbatim>\<open>readings\<close>; the literals are the nearest \<^verbatim>\<open>double\<close> values.
\<close>

definition fahrenheit :: "16 word \<Rightarrow> 16 word" where
  "fahrenheit readings =
    to_uint16 (std_round (to_double (to_double (of_int (uint readings) * to_double (9 / 5)) + 32)))"

definition kelvin :: "16 word \<Rightarrow> 16 word" where
  "kelvin readings =
    to_uint16 (std_round (to_double (of_int (uint readings) + to_double (27315 / 100))))"

definition render_args :: "SensorType \<Rightarrow> 16 word \<Rightarrow> string option \<Rightarrow> fmt_args" where
  "render_args ty readings ic =
    (case ty of
      TEMPERATURE \<Rightarrow>
        \<lparr>arg_temperatureC = readings, arg_temperatureF = fahrenheit readings,
         arg_temperatureK = kelvin readings, arg_icon = ic, arg_fan = 0, arg_power = 0\<rparr>
    | FAN \<Rightarrow>
        \<lparr>arg_temperatureC = 0, arg_temperatureF = 0, arg_temperatureK = 0, arg_icon = ic,
         arg_fan = readings, arg_power = 0\<rparr>
    | POWER \<Rightarrow>
        \<lparr>arg_temperatureC = 0, arg_temperatureF = 0, arg_temperatureK = 0, arg_icon = ic,
         arg_fan = 0, arg_power = readings\<rparr>)"

text \<open>Lines 125 to 139.\<close>

definition tooltip_format :: "Temperature \<Rightarrow> string" where
  "tooltip_format t =
    (if isString (config_m t ''tooltip-format'') then string_of (config_m t ''tooltip-format'')
     else (case sensor_type_m t of
       TEMPERATURE \<Rightarrow> ''{temperatureC}'' @ [CHR 0xC2, CHR 0xB0] @ ''C''
     | FAN \<Rightarrow> ''{fan} RPM''
     | POWER \<Rightarrow> ''{power}W''))"

text \<open>
  Lines 74 to 147 of \<^verbatim>\<open>update\<close>, on the rounded \<^verbatim>\<open>readings\<close>: the display
  as the tick leaves it and the exception that ended the tick, if one did. The closing
  call of \<^verbatim>\<open>ALabel::update\<close> belongs to the base class and is outside the model.
\<close>

definition render :: "env \<Rightarrow> Temperature \<Rightarrow> 16 word \<Rightarrow> display \<Rightarrow> display \<times> error option" where
  "render ev t readings d =
    (let critical = isCritical t readings;
         warning = isWarning t readings;
         (fmt, d1) = select_format t critical warning d
     in
       if fmt = [] then (d1\<lparr>event_box_shown := False\<rparr>, None)
       else
         let d2 = d1\<lparr>event_box_shown := True\<rparr>;
             max_reading = (if isInt (config_m t ''critical-threshold'')
                            then asInt (config_m t ''critical-threshold'') else 0);
             ic = getIcon ev readings [] max_reading
         in
           (case fmt_format ev fmt (render_args (sensor_type_m t) readings (Some ic)) of
             Inl e \<Rightarrow> (d2, Some e)
           | Inr markup \<Rightarrow>
               let d3 = d2\<lparr>label_markup := markup\<rparr> in
               if tooltipEnabled ev then
                 (case fmt_format ev (tooltip_format t)
                         (render_args (sensor_type_m t) readings None) of
                   Inl e \<Rightarrow> (d3, Some e)
                 | Inr tip \<Rightarrow> (d3\<lparr>label_tooltip := tip\<rparr>, None))
               else (d3, None)))"

text \<open>
  \<^verbatim>\<open>update\<close> (lines 72 to 147): line 73 reads the sensor and rounds; an exception
  of \<^verbatim>\<open>getReadings\<close> leaves the display as it was.
\<close>

definition update ::
  "platform \<Rightarrow> env \<Rightarrow> filesystem \<Rightarrow> Temperature \<Rightarrow> display \<Rightarrow> display \<times> error option" where
  "update pf ev fs t d =
    (case getReadings pf ev fs t of
      Inl e \<Rightarrow> (d, Some e)
    | Inr v \<Rightarrow> render ev t (to_uint16 (std_round v)) d)"

subsection \<open>A sample installation\<close>

text \<open>
  One sensor file \<^verbatim>\<open>/t\<close> with the given content, a formatter that returns the
  template it is given, no tooltip, and thresholds 60 and 80.
\<close>

definition sample_fs :: "string \<Rightarrow> filesystem" where
  "sample_fs content =
    \<lparr>fs_present = (\<lambda>p. Some (p = ''/t'')), fs_directory = (\<lambda>p. Some False),
     fs_entries = (\<lambda>p. DirEnd),
     fs_stream = (\<lambda>p. if p = ''/t'' then OpenGood content else NotOpen)\<rparr>"

definition sample_env :: env where
  "sample_env =
    \<lparr>fmt_format = (\<lambda>f a. Inr f), getIcon = (\<lambda>r a m. []), tooltipEnabled = False,
     sysctlbyname = (\<lambda>s. None)\<rparr>"

definition sample_config :: "string \<Rightarrow> config" where
  "sample_config ty =
    (\<lambda>k. if k = ''type'' then JString ty
         else if k = ''hwmon-path'' then JString ''/t''
         else if k = ''warning-threshold'' then JInt 60
         else if k = ''critical-threshold'' then JInt 80
         else JNull)"

definition sample_module :: "SensorType \<Rightarrow> Temperature" where
  "sample_module ty =
    \<lparr>config_m = sample_config (case ty of TEMPERATURE \<Rightarrow> ''temperature'' | FAN \<Rightarrow> ''fan''
                                 | POWER \<Rightarrow> ''power''),
     format_m = default_format, file_path_m = ''/t'', sensor_type_m = ty\<rparr>"









text \<open>
  A FreeBSD system whose first processor reports 303.2 K, in tenths of a kelvin.
\<close>

definition bsd_env :: env where
  "bsd_env =
    sample_env\<lparr>sysctlbyname := (\<lambda>s. if s = ''dev.cpu.0.temperature'' then Some 3032 else None)\<rparr>"

text \<open>A formatter that prints the five numbers it is given, in decimal.\<close>

definition print_args :: "string \<Rightarrow> fmt_args \<Rightarrow> error + string" where
  "print_args f a = Inr (show_nat (unat (arg_temperatureC a)) @ '' '' @
     show_nat (unat (arg_temperatureF a)) @ '' '' @ show_nat (unat (arg_temperatureK a)) @ '' '' @
     show_nat (unat (arg_fan a)) @ '' '' @ show_nat (unat (arg_power a)))"

definition printing_env :: env where
  "printing_env = sample_env\<lparr>fmt_format := print_args\<rparr>"

definition blank_display :: display where
  "blank_display =
    \<lparr>style_classes = {}, event_box_shown = False, label_markup = [], label_tooltip = []\<rparr>"

section \<open>Properties\<close>

subsection \<open>Rounding: the exponent, the error bound and exact values\<close>

lemma ilog2_ge1_lower: "1 \<le> x \<Longrightarrow> 2 ^ ilog2_ge1 x \<le> x"
proof (induction x rule: ilog2_ge1.induct)
  case (1 x)
  show ?case
  proof (cases "x < 2")
    case True
    then show ?thesis using 1 by (simp add: ilog2_ge1.simps)
  next
    case False
    then have "1 \<le> x / 2" by simp
    with 1 False have "2 ^ ilog2_ge1 (x / 2) \<le> x / 2" by simp
    then show ?thesis using False by (subst ilog2_ge1.simps) simp
  qed
qed

lemma ilog2_ge1_upper: "1 \<le> x \<Longrightarrow> x < 2 * 2 ^ ilog2_ge1 x"
proof (induction x rule: ilog2_ge1.induct)
  case (1 x)
  show ?case
  proof (cases "x < 2")
    case True
    then show ?thesis using 1 by (simp add: ilog2_ge1.simps)
  next
    case False
    then have "1 \<le> x / 2" by simp
    with 1 False have "x / 2 < 2 * 2 ^ ilog2_ge1 (x / 2)" by simp
    then show ?thesis using False by (subst ilog2_ge1.simps) simp
  qed
qed

lemma ilog2_lt1_lower: "0 < x \<Longrightarrow> x < 1 \<Longrightarrow> 1 \<le> x * 2 ^ ilog2_lt1 x"
proof (induction x rule: ilog2_lt1.induct)
  case (1 x)
  show ?case
  proof (cases "2 * x < 1")
    case True
    with 1 have "1 \<le> (2 * x) * 2 ^ ilog2_lt1 (2 * x)" by simp
    then show ?thesis using 1 by (subst ilog2_lt1.simps) (simp add: mult.assoc)
  next
    case False
    then have "ilog2_lt1 (2 * x) = 0" by (subst ilog2_lt1.simps) simp
    then show ?thesis using 1 False by (subst ilog2_lt1.simps) simp
  qed
qed

lemma ilog2_lt1_upper: "0 < x \<Longrightarrow> x < 1 \<Longrightarrow> x * 2 ^ ilog2_lt1 x < 2"
proof (induction x rule: ilog2_lt1.induct)
  case (1 x)
  show ?case
  proof (cases "2 * x < 1")
    case True
    with 1 have "(2 * x) * 2 ^ ilog2_lt1 (2 * x) < 2" by simp
    then show ?thesis using 1 by (subst ilog2_lt1.simps) (simp add: mult.assoc)
  next
    case False
    then have "ilog2_lt1 (2 * x) = 0" by (subst ilog2_lt1.simps) simp
    then show ?thesis using 1 False by (subst ilog2_lt1.simps) simp
  qed
qed

lemma expo_lower: assumes "x \<noteq> 0" shows "2 powi (expo x) \<le> \<bar>x\<bar>"
proof (cases "1 \<le> \<bar>x\<bar>")
  case True
  then show ?thesis using ilog2_ge1_lower [of "\<bar>x\<bar>"] by (simp add: expo_def)
next
  case False
  then have x: "0 < \<bar>x\<bar>" "\<bar>x\<bar> < 1" using assms by simp_all
  have "1 \<le> \<bar>x\<bar> * 2 ^ ilog2_lt1 \<bar>x\<bar>" by (rule ilog2_lt1_lower [OF x])
  then have "1 / 2 ^ ilog2_lt1 \<bar>x\<bar> \<le> \<bar>x\<bar>" by (simp add: field_simps)
  then show ?thesis using False by (simp add: expo_def power_int_minus_divide)
qed

lemma expo_upper: assumes "x \<noteq> 0" shows "\<bar>x\<bar> < 2 powi (expo x + 1)"
proof (cases "1 \<le> \<bar>x\<bar>")
  case True
  then show ?thesis using ilog2_ge1_upper [of "\<bar>x\<bar>"] by (simp add: expo_def power_int_add)
next
  case False
  then have x: "0 < \<bar>x\<bar>" "\<bar>x\<bar> < 1" using assms by simp_all
  have "\<bar>x\<bar> * 2 ^ ilog2_lt1 \<bar>x\<bar> < 2" by (rule ilog2_lt1_upper [OF x])
  then have "\<bar>x\<bar> < 2 / 2 ^ ilog2_lt1 \<bar>x\<bar>" by (simp add: field_simps)
  moreover have "(2::rat) powi (1 - int (ilog2_lt1 \<bar>x\<bar>)) = 2 / 2 ^ ilog2_lt1 \<bar>x\<bar>"
    by (simp add: power_int_diff)
  ultimately show ?thesis using False by (simp add: expo_def)
qed

lemma expo_less: assumes "x \<noteq> 0" and "\<bar>x\<bar> < 2 powi j" shows "expo x < j"
proof (rule ccontr)
  assume "\<not> expo x < j"
  then have "j \<le> expo x" by simp
  then have "(2::rat) powi j \<le> 2 powi (expo x)" by (rule power_int_increasing) simp
  with expo_lower [OF assms(1)] assms(2) show False by simp
qed

lemma rne_error: "\<bar>of_int (rne y) - y\<bar> \<le> 1 / 2"
proof -
  have "of_int \<lfloor>y\<rfloor> \<le> y" "y < of_int \<lfloor>y\<rfloor> + 1" by linarith+
  then show ?thesis by (auto simp: rne_def Let_def)
qed

lemma rne_of_int: "rne (of_int n) = n"
  by (simp add: rne_def)

lemma fl_zero: "fl p 0 = 0"
  by (simp add: fl_def rne_def)

lemma fl_error:
  assumes "\<bar>x\<bar> < 2 powi j"
  shows "\<bar>fl p x - x\<bar> \<le> 2 powi (j - 1 - int p)"
proof (cases "x = 0")
  case True
  then show ?thesis by (simp add: fl_zero)
next
  case False
  define u :: rat where "u = 2 powi (expo x - int p + 1)"
  have u: "0 < u" by (simp add: u_def)
  have "fl p x - x = (of_int (rne (x / u)) - x / u) * u"
    using u by (simp add: fl_def u_def [symmetric] left_diff_distrib)
  then have "\<bar>fl p x - x\<bar> = \<bar>of_int (rne (x / u)) - x / u\<bar> * u"
    using u by (simp add: abs_mult)
  also have "\<dots> \<le> (1 / 2) * u"
    using u rne_error [of "x / u"] by (intro mult_right_mono) simp_all
  also have "\<dots> = 2 powi (expo x - int p)"
    by (simp add: u_def power_int_add)
  also have "\<dots> \<le> 2 powi (j - 1 - int p)"
    using expo_less [OF False assms] by (intro power_int_increasing) simp_all
  finally show ?thesis .
qed

lemma fl_exact:
  assumes "x = of_int m * 2 powi k" and "\<bar>m\<bar> < 2 ^ p"
  shows "fl p x = x"
proof (cases "x = 0")
  case True
  then show ?thesis by (simp add: fl_zero)
next
  case False
  have "\<bar>x\<bar> = of_int \<bar>m\<bar> * 2 powi k" by (simp add: assms(1) abs_mult power_int_abs)
  also have "\<dots> < 2 ^ p * 2 powi k"
  proof -
    have "(of_int \<bar>m\<bar> :: rat) < of_int (2 ^ p)" using assms(2) by (simp only: of_int_less_iff)
    then show ?thesis by (intro mult_strict_right_mono) simp_all
  qed
  also have "\<dots> = 2 powi (int p + k)" by (simp add: power_int_add)
  finally have "expo x < int p + k" by (rule expo_less [OF False])
  define n where "n = nat (k - (expo x - int p + 1))"
  have n: "k = expo x - int p + 1 + int n"
    using \<open>expo x < int p + k\<close> by (simp add: n_def)
  define u :: rat where "u = 2 powi (expo x - int p + 1)"
  have u: "0 < u" by (simp add: u_def)
  have "(2::rat) powi k = 2 ^ n * u"
    by (subst n) (simp add: u_def power_int_add)
  with assms(1) have xu: "x = of_int (m * 2 ^ n) * u" by simp
  then have "x / u = of_int (m * 2 ^ n)" using u by simp
  then have "of_int (rne (x / u)) * u = of_int (m * 2 ^ n) * u"
    by (simp only: rne_of_int)
  with xu have "of_int (rne (x / u)) * u = x" by simp
  then show ?thesis by (simp add: fl_def u_def)
qed

subsection \<open>The conversions of the module in integer arithmetic\<close>

lemma std_round_near:
  assumes "\<bar>x - of_int n\<bar> < 1 / 2"
  shows "std_round x = n"
proof -
  from assms have x: "of_int n - 1 / 2 < x" "x < of_int n + 1 / 2"
    by linarith+
  show ?thesis
  proof (cases "0 \<le> x")
    case True
    have "\<lfloor>x + 1 / 2\<rfloor> = n" using x by (intro floor_unique) linarith+
    with True show ?thesis by (simp add: std_round_def)
  next
    case False
    have "\<lfloor>- x + 1 / 2\<rfloor> = - n" using x by (intro floor_unique) (simp, linarith)+
    with False show ?thesis by (simp add: std_round_def)
  qed
qed

lemma std_round_half:
  assumes "0 < n"
  shows "std_round (of_int n - 1 / 2) = n"
proof -
  have "(1::rat) \<le> of_int n" using assms by simp
  then have "(0::rat) \<le> of_int n - 1 / 2" by linarith
  then show ?thesis by (simp add: std_round_def)
qed

lemma round_quotient:
  fixes r D h j :: int
  assumes r: "0 \<le> r" "r < 2 ^ 53"
    and D: "D = 2 * h" "0 < h"
    and n23: "r + h < 8388608 * D"
    and below: "of_int r / of_int D + 2 powi (j - 54) < (2::rat) powi j"
    and eps: "2 powi (j - 54) + 2 powi (j - 25) < 1 / (of_int D :: rat)"
  shows "std_round (fl 24 (fl 53 (fl 53 (of_int r) / of_int D))) = (r + h) div D"
proof -
  define n where "n = (r + h) div D"
  define m where "m = (r + h) mod D"
  have Dpos: "0 < D" using D by simp
  have rm: "r + h = n * D + m" by (simp add: n_def m_def)
  have m: "0 \<le> m" "m < D" using Dpos by (simp_all add: m_def)
  have n0: "0 \<le> n" using r D Dpos by (simp add: n_def pos_imp_zdiv_nonneg_iff)
  from rm m(1) n23 have "n * D < 8388608 * D" by linarith
  then have nlt: "n < 8388608" using Dpos by simp
  define q :: rat where "q = of_int r / of_int D"
  have Dr: "(0::rat) < of_int D" "(of_int D :: rat) = 2 * of_int h" using Dpos D by simp_all
  have "of_int r = (of_int n * of_int D + of_int m - of_int h :: rat)"
    using rm by (metis add_diff_cancel_right' of_int_add of_int_mult)
  then have q_eq: "q = of_int n + (of_int m - of_int h) / of_int D"
    using Dr(1) by (simp add: q_def field_simps)
  have e1: "fl 53 (of_int r) = (of_int r :: rat)"
    using r by (intro fl_exact [where m = r and k = 0]) simp_all
  have q0: "0 \<le> q" using r Dpos by (simp add: q_def)
  have pw: "(0::rat) < 2 powi (j - 54)" by simp
  have qj: "\<bar>q\<bar> < 2 powi j" using q0 below pw unfolding q_def [symmetric] by linarith
  define q1 where "q1 = fl 53 q"
  have err1: "\<bar>q1 - q\<bar> \<le> 2 powi (j - 54)"
    using fl_error [OF qj, of 53] by (simp add: q1_def)
  have q1j: "\<bar>q1\<bar> < 2 powi j" using err1 below q0 unfolding q_def [symmetric] by linarith
  define q2 where "q2 = fl 24 q1"
  have err2: "\<bar>q2 - q1\<bar> \<le> 2 powi (j - 25)"
    using fl_error [OF q1j, of 24] by (simp add: q2_def)
  have goal: "std_round q2 = n"
  proof (cases "m = 0")
    case True
    have half: "of_int h / (of_int D :: rat) = 1 / 2" using Dr D by simp
    have qn: "q = of_int n - 1 / 2" using True half by (simp add: q_eq diff_divide_distrib)
    have npos: "0 < n"
    proof (rule ccontr)
      assume "\<not> 0 < n"
      with n0 have "n = 0" by simp
      with rm True r D show False by simp
    qed
    have rep: "q = of_int (2 * n - 1) * 2 powi (- 1)"
      by (simp add: qn power_int_minus field_simps)
    have b24: "\<bar>2 * n - 1\<bar> < 2 ^ 24" using npos nlt by simp
    have b53: "\<bar>2 * n - 1\<bar> < 2 ^ 53" using npos nlt by simp
    have "q1 = q" unfolding q1_def by (rule fl_exact [OF rep b53])
    then have "q2 = q" unfolding q2_def using fl_exact [OF rep b24] by simp
    then show ?thesis using std_round_half [OF npos] qn by simp
  next
    case False
    then have m1: "1 \<le> m" "m \<le> D - 1" using m by simp_all
    have "(of_int m - of_int h) / (of_int D :: rat) \<le> 1 / 2 - 1 / of_int D"
    proof -
      have "(of_int m :: rat) \<le> of_int (D - 1)" using m1(2) by (simp only: of_int_le_iff)
      then have "(of_int m - of_int h :: rat) \<le> of_int D / 2 - 1" using Dr(2) by simp
      then have "(of_int m - of_int h) / (of_int D :: rat) \<le> (of_int D / 2 - 1) / of_int D"
        using Dr(1) by (simp add: divide_right_mono)
      also have "\<dots> = 1 / 2 - 1 / of_int D" using Dr(1) by (simp add: field_simps)
      finally show ?thesis .
    qed
    moreover have "- (1 / 2 - 1 / of_int D) \<le> (of_int m - of_int h) / (of_int D :: rat)"
    proof -
      have "(of_int 1 :: rat) \<le> of_int m" using m1(1) by (simp only: of_int_le_iff)
      then have "- (of_int D / 2 - 1) \<le> (of_int m - of_int h :: rat)" using Dr(2) by simp
      then have "(- (of_int D / 2 - 1)) / (of_int D :: rat) \<le> (of_int m - of_int h) / of_int D"
        using Dr(1) by (simp add: divide_right_mono)
      moreover have "(- (of_int D / 2 - 1)) / (of_int D :: rat) = - (1 / 2 - 1 / of_int D)"
        using Dr(1) by (simp add: field_simps)
      ultimately show ?thesis by simp
    qed
    ultimately have "\<bar>q - of_int n\<bar> \<le> 1 / 2 - 1 / of_int D" by (simp add: q_eq abs_le_iff)
    with err1 err2 eps have "\<bar>q2 - of_int n\<bar> < 1 / 2" by linarith
    then show ?thesis by (rule std_round_near)
  qed
  show ?thesis using goal by (simp add: e1 q2_def q1_def q_def n_def)
qed

lemma celsius_rounding:
  assumes "0 \<le> r" "r \<le> 32767499"
  shows "std_round (to_float (to_double (to_double (of_int r) / 1000))) = (r + 500) div 1000"
proof -
  have "(of_int r :: rat) \<le> 32767499" using assms(2) by (metis of_int_le_iff of_int_numeral)
  then have "of_int r / of_int 1000 + 2 powi (15 - 54) < (2::rat) powi 15"
    by (simp add: power_int_minus_divide)
  moreover have "2 powi (15 - 54) + 2 powi (15 - 25) < 1 / (of_int 1000 :: rat)"
    by (simp add: power_int_minus_divide)
  ultimately have "std_round (fl 24 (fl 53 (fl 53 (of_int r) / of_int 1000))) = (r + 500) div 1000"
    using assms by (intro round_quotient [where j = 15]) simp_all
  then show ?thesis by (simp add: to_float_def to_double_def)
qed

lemma watts_rounding:
  assumes "0 \<le> r" "r \<le> 31499999"
  shows "std_round (to_float (to_double (to_double (of_int r) / 1000000))) = (r + 500000) div 1000000"
proof -
  have "(of_int r :: rat) \<le> 31499999" using assms(2) by (metis of_int_le_iff of_int_numeral)
  then have "of_int r / of_int 1000000 + 2 powi (5 - 54) < (2::rat) powi 5"
    by (simp add: power_int_minus_divide)
  moreover have "2 powi (5 - 54) + 2 powi (5 - 25) < 1 / (of_int 1000000 :: rat)"
    by (simp add: power_int_minus_divide)
  ultimately have "std_round (fl 24 (fl 53 (fl 53 (of_int r) / of_int 1000000))) = (r + 500000) div 1000000"
    using assms by (intro round_quotient [where j = 5]) simp_all
  then show ?thesis by (simp add: to_float_def to_double_def)
qed

lemma fahrenheit_rounding:
  fixes c :: int
  assumes c: "0 \<le> c" "c \<le> 65535"
  shows "std_round (to_double (to_double (of_int c * to_double (9 / 5)) + 32)) = (18 * c + 325) div 10"
proof -
  define x :: rat where "x = of_int c"
  have x: "0 \<le> x" "x \<le> 65535"
    using c by (simp_all add: x_def)
  define d where "d = fl 53 (9 / 5)"
  have "\<bar>9 / 5 :: rat\<bar> < 2 powi 1" by simp
  from fl_error [OF this, of 53] have d: "\<bar>d - 9 / 5\<bar> \<le> 1 / 9007199254740992"
    by (simp add: d_def power_int_minus_divide)
  define p1 where "p1 = x * d"
  have "p1 - x * (9 / 5) = x * (d - 9 / 5)" by (simp add: p1_def right_diff_distrib)
  then have "\<bar>p1 - x * (9 / 5)\<bar> = x * \<bar>d - 9 / 5\<bar>" using x(1) by (simp add: abs_mult)
  also have "\<dots> \<le> 65535 * (1 / 9007199254740992)" using x d by (intro mult_mono) simp_all
  finally have p1: "\<bar>p1 - x * (9 / 5)\<bar> \<le> 65535 / 9007199254740992" by simp
  have "\<bar>p1\<bar> < 131072" using p1 x by linarith
  then have "\<bar>p1\<bar> < 2 powi 17" by simp
  from fl_error [OF this, of 53] have f1: "\<bar>fl 53 p1 - p1\<bar> \<le> 1 / 137438953472"
    by (simp add: power_int_minus_divide)
  define s where "s = fl 53 p1 + 32"
  have "\<bar>s\<bar> < 131072" using f1 p1 x unfolding s_def by linarith
  then have "\<bar>s\<bar> < 2 powi 17" by simp
  from fl_error [OF this, of 53] have f2: "\<bar>fl 53 s - s\<bar> \<le> 1 / 137438953472"
    by (simp add: power_int_minus_divide)
  define N where "N = 18 * c + 325"
  define k where "k = N div 10"
  have "odd N" by (simp add: N_def)
  then have "N mod 10 \<noteq> 0" by presburger
  then have md: "1 \<le> N mod 10" "N mod 10 \<le> 9"
    using pos_mod_sign [of 10 N] pos_mod_bound [of 10 N] by simp_all
  have Nk: "N = 10 * k + N mod 10" by (simp add: k_def)
  define y :: rat where "y = of_int (N mod 10)"
  have y: "1 \<le> y" "y \<le> 9" using md by (simp_all add: y_def)
  have "(of_int N :: rat) = 10 * of_int k + y"
    unfolding y_def by (metis Nk of_int_add of_int_mult of_int_numeral)
  moreover have "(of_int N :: rat) = 18 * x + 325" by (simp add: N_def x_def)
  ultimately have ex: "x * (9 / 5) + 32 = of_int k + y / 10 - 1 / 2" by (simp add: field_simps)
  have "\<bar>fl 53 s - of_int k\<bar> < 1 / 2"
    using f2 f1 p1 ex y unfolding s_def by linarith
  then have "std_round (fl 53 s) = k" by (rule std_round_near)
  then show ?thesis by (simp add: to_double_def s_def p1_def d_def x_def k_def N_def)
qed

lemma kelvin_rounding:
  fixes c :: int
  assumes c: "0 \<le> c" "c \<le> 65535"
  shows "std_round (to_double (of_int c + to_double (27315 / 100))) = c + 273"
proof -
  define x :: rat where "x = of_int c"
  have x: "0 \<le> x" "x \<le> 65535"
    using c by (simp_all add: x_def)
  define d where "d = fl 53 (27315 / 100)"
  have "\<bar>27315 / 100 :: rat\<bar> < 2 powi 9" by simp
  from fl_error [OF this, of 53] have d: "\<bar>d - 27315 / 100\<bar> \<le> 1 / 35184372088832"
    by (simp add: d_def power_int_minus_divide)
  define s where "s = x + d"
  have "\<bar>s\<bar> < 131072" using d x unfolding s_def by linarith
  then have "\<bar>s\<bar> < 2 powi 17" by simp
  from fl_error [OF this, of 53] have f: "\<bar>fl 53 s - s\<bar> \<le> 1 / 137438953472"
    by (simp add: power_int_minus_divide)
  have "of_int (c + 273) = x + 273" by (simp add: x_def)
  then have "\<bar>fl 53 s - of_int (c + 273)\<bar> < 1 / 2"
    using f d unfolding s_def by linarith
  then have "std_round (fl 53 s) = c + 273" by (rule std_round_near)
  then show ?thesis by (simp add: to_double_def s_def d_def x_def)
qed

lemma to_uint16_in_range:
  "- (2 ^ 31) \<le> i \<Longrightarrow> i < 2 ^ 31 \<Longrightarrow> to_uint16 i = word_of_int i"
  by (simp add: to_uint16_def)

lemma fahrenheit_closed: "fahrenheit r = word_of_int ((18 * uint r + 325) div 10)"
proof -
  have "0 \<le> uint r" "uint r \<le> 65535" using uint_lt2p [of r] by simp_all
  then have "std_round (to_double (to_double (of_int (uint r) * to_double (9 / 5)) + 32)) =
      (18 * uint r + 325) div 10"
    by (rule fahrenheit_rounding)
  moreover have "0 \<le> (18 * uint r + 325) div 10"
    using \<open>0 \<le> uint r\<close> by (simp add: pos_imp_zdiv_nonneg_iff)
  moreover have "(18 * uint r + 325) div 10 \<le> 1179955 div 10"
    using \<open>uint r \<le> 65535\<close> by (intro zdiv_mono1) simp_all
  ultimately have "std_round (to_double (to_double (of_int (uint r) * to_double (9 / 5)) + 32)) =
      (18 * uint r + 325) div 10"
    and "- (2 ^ 31) \<le> (18 * uint r + 325) div 10" and "(18 * uint r + 325) div 10 < 2 ^ 31"
    by simp_all
  then show ?thesis unfolding fahrenheit_def by (simp only: to_uint16_in_range)
qed

lemma kelvin_closed: "kelvin r = r + 273"
proof -
  have "0 \<le> uint r" "uint r \<le> 65535" using uint_lt2p [of r] by simp_all
  then have "std_round (to_double (of_int (uint r) + to_double (27315 / 100))) = uint r + 273"
    by (rule kelvin_rounding)
  moreover have "- (2 ^ 31) \<le> uint r + 273" "uint r + 273 < 2 ^ 31"
    using \<open>0 \<le> uint r\<close> \<open>uint r \<le> 65535\<close> by simp_all
  ultimately have "kelvin r = word_of_int (uint r + 273)"
    unfolding kelvin_def by (simp only: to_uint16_in_range)
  then show ?thesis by simp
qed

lemma std_round_exact_quotient:
  fixes r D h :: int
  assumes "0 \<le> r" "0 < h" "D = 2 * h"
  shows "std_round (of_int r / of_int D) = (r + h) div D"
proof -
  have "(0::rat) \<le> of_int r / of_int D" using assms by simp
  moreover have "of_int r / of_int D + 1 / 2 = (of_int (r + h) / of_int D :: rat)"
    using assms by (simp add: add_divide_distrib)
  ultimately show ?thesis by (simp only: std_round_def floor_divide_of_int_eq if_True)
qed

lemma std_round_exact_fahrenheit:
  fixes c :: int
  assumes "0 \<le> c"
  shows "std_round (of_int c * (9 / 5) + 32) = (18 * c + 325) div 10"
proof -
  have "(0::rat) \<le> of_int c * (9 / 5) + 32" using assms by simp
  moreover have "of_int c * (9 / 5) + 32 + 1 / 2 = (of_int (18 * c + 325) / of_int 10 :: rat)"
    by simp
  ultimately show ?thesis by (simp only: std_round_def floor_divide_of_int_eq if_True)
qed

lemma std_round_exact_kelvin:
  fixes c :: int
  shows "std_round (of_int c + 27315 / 100) = c + 273"
proof -
  have "\<bar>(of_int c + 27315 / 100 :: rat) - of_int (c + 273)\<bar> < 1 / 2" by simp
  then show ?thesis by (rule std_round_near)
qed

subsection \<open>Auxiliary facts about the tick\<close>

lemma good_OpenGood [simp]: "good (OpenGood content)"
  by (simp add: good_def is_open_def)

lemma sample_reading_85:
  "getReadings Linux sample_env (sample_fs ''85000'') (sample_module TEMPERATURE) = Inr 85"
  by code_simp

lemma sample_rounded_85: "to_uint16 (std_round 85) = 85"
  by code_simp

lemma sample_streams:
  "open_ifstream (sample_fs content) (file_path_m (sample_module ty)) = OpenGood content"
  by (simp add: open_ifstream_def sample_fs_def sample_module_def)

lemma sample_kind: "sensor_type_m (sample_module ty) = ty"
  by (simp add: sample_module_def)

lemma select_format_keeps:
  "event_box_shown (snd (select_format t c w d)) = event_box_shown d"
  "label_markup (snd (select_format t c w d)) = label_markup d"
  "label_tooltip (snd (select_format t c w d)) = label_tooltip d"
  by (simp_all add: select_format_def add_class_def remove_class_def Let_def)

lemma select_format_critical:
  "select_format t True w d =
    (if isString (config_m t ''format-critical'')
     then string_of (config_m t ''format-critical'') else format_m t, add_class ''critical'' d)"
  by (simp add: select_format_def)

lemma render_empty:
  assumes "fst (select_format t (isCritical t r) (isWarning t r) d) = []"
  shows "render ev t r d =
    ((snd (select_format t (isCritical t r) (isWarning t r) d))\<lparr>event_box_shown := False\<rparr>, None)"
proof (cases "select_format t (isCritical t r) (isWarning t r) d")
  case (Pair f d1)
  with assms have "f = []" by simp
  with Pair show ?thesis by (simp add: render_def)
qed

lemma render_nonempty:
  assumes "fst (select_format t (isCritical t r) (isWarning t r) d) \<noteq> []"
  shows "event_box_shown (fst (render ev t r d))"
proof (cases "select_format t (isCritical t r) (isWarning t r) d")
  case (Pair f d1)
  with assms have "f \<noteq> []" by simp
  with Pair show ?thesis by (simp add: render_def Let_def split: sum.splits)
qed

lemma style_classes_render:
  "style_classes (fst (render ev t r d)) =
   style_classes (snd (select_format t (isCritical t r) (isWarning t r) d))"
proof (cases "select_format t (isCritical t r) (isWarning t r) d")
  case (Pair f d1)
  then show ?thesis by (simp add: render_def Let_def split: sum.splits)
qed

lemma markup_render:
  assumes "select_format t (isCritical t r) (isWarning t r) d = (f, d1)" and "f \<noteq> []"
  shows "case fmt_format ev f (render_args (sensor_type_m t) r
           (Some (getIcon ev r [] (if isInt (config_m t ''critical-threshold'')
              then asInt (config_m t ''critical-threshold'') else 0)))) of
           Inl e \<Rightarrow> snd (render ev t r d) = Some e
         | Inr m \<Rightarrow> label_markup (fst (render ev t r d)) = m"
  using assms by (simp add: render_def Let_def split: sum.splits)

subsection \<open>Classification and styling\<close>

text \<open>
  The claim that a reading which meets both thresholds is always classified critical fails
  on the 16-bit reading: a fan at 65600 is compared as 64, which meets the warning
  threshold 60 and not the critical threshold 80, and the tick is a warning.
\<close>

theorem reading_65600_is_warning_only:
  "getReadings Linux sample_env (sample_fs ''65600'') (sample_module FAN) = Inr 65600 \<and>
   std_round 65600 = 65600 \<and>
   style_classes (fst (update Linux sample_env (sample_fs ''65600'') (sample_module FAN)
     blank_display)) = {''warning''}"
  by code_simp

lemma uint_to_uint16:
  assumes "0 \<le> i" and "i < 65536"
  shows "uint (to_uint16 i) = i"
proof -
  have "to_uint16 i = word_of_int i" using assms by (intro to_uint16_in_range) simp_all
  then show ?thesis using assms by (simp add: uint_word_of_int)
qed

text \<open>
  C2, amended: when both thresholds are configured and the rounded reading lies between 0
  and 65535 and meets both, the tick takes the critical branch: the class \<open>critical\<close> is
  set, and the template it renders is \<^verbatim>\<open>format-critical\<close> (the base format when that
  key is no string). \<^verbatim>\<open>format-warning\<close> plays no part, and the tick does not add the
  class \<open>warning\<close>.
\<close>

theorem critical_takes_precedence:
  assumes "getReadings pf ev fs t = Inr v"
    and "0 \<le> std_round v" and "std_round v < 65536"
    and "isInt (config_m t ''warning-threshold'')"
    and "asInt (config_m t ''warning-threshold'') \<le> std_round v"
    and "isInt (config_m t ''critical-threshold'')"
    and "asInt (config_m t ''critical-threshold'') \<le> std_round v"
  shows "let readings = to_uint16 (std_round v);
             critical_format = (if isString (config_m t ''format-critical'')
               then string_of (config_m t ''format-critical'') else format_m t);
             res = update pf ev fs t d
         in uint readings = std_round v \<and> isWarning t readings \<and> isCritical t readings \<and>
            ''critical'' \<in> style_classes (fst res) \<and>
            (''warning'' \<notin> style_classes d \<longrightarrow> ''warning'' \<notin> style_classes (fst res)) \<and>
            (critical_format = [] \<longrightarrow> \<not> event_box_shown (fst res)) \<and>
            (critical_format \<noteq> [] \<longrightarrow>
              (case fmt_format ev critical_format (render_args (sensor_type_m t) readings
                 (Some (getIcon ev readings [] (asInt (config_m t ''critical-threshold''))))) of
                Inl e \<Rightarrow> snd res = Some e
              | Inr m \<Rightarrow> label_markup (fst res) = m))"
proof -
  define r where "r = to_uint16 (std_round v)"
  define cf where "cf = (if isString (config_m t ''format-critical'')
               then string_of (config_m t ''format-critical'') else format_m t)"
  have u: "uint r = std_round v" unfolding r_def using assms(2,3) by (rule uint_to_uint16)
  have upd: "update pf ev fs t d = render ev t r d"
    using assms(1) by (simp add: update_def r_def)
  have warn: "isWarning t r" using assms(4,5) by (simp add: isWarning_def u)
  have crit: "isCritical t r" using assms(6,7) by (simp add: isCritical_def u)
  have sel: "select_format t (isCritical t r) (isWarning t r) d = (cf, add_class ''critical'' d)"
    using crit by (simp add: select_format_critical cf_def)
  have 1: "style_classes (fst (render ev t r d)) = insert ''critical'' (style_classes d)"
    by (simp add: style_classes_render sel add_class_def)
  have 2: "cf = [] \<longrightarrow> \<not> event_box_shown (fst (render ev t r d))"
    using sel by (simp add: render_def)
  have 3: "cf \<noteq> [] \<longrightarrow>
      (case fmt_format ev cf (render_args (sensor_type_m t) r
                 (Some (getIcon ev r [] (asInt (config_m t ''critical-threshold''))))) of
                Inl e \<Rightarrow> snd (render ev t r d) = Some e
              | Inr m \<Rightarrow> label_markup (fst (render ev t r d)) = m)"
    using markup_render [OF sel, of ev] assms(6) by simp
  show ?thesis
    using 1 2 3 u warn crit unfolding upd Let_def r_def [symmetric] cf_def [symmetric] by simp
qed

text \<open>The instance of the spec: warning 60, critical 80, reading 85.\<close>

theorem critical_takes_precedence_witness:
  "std_round 85 = 85 \<and>
   style_classes (fst (update Linux sample_env (sample_fs ''85000'') (sample_module TEMPERATURE)
     blank_display)) = {''critical''} \<and>
   label_markup (fst (update Linux sample_env (sample_fs ''85000'') (sample_module TEMPERATURE)
     blank_display)) = default_format \<and>
   ''critical'' \<in> style_classes (fst (update Linux sample_env (sample_fs ''85000'')
     (sample_module TEMPERATURE) (blank_display\<lparr>style_classes := {''warning''}\<rparr>)))"
proof -
  have r: "std_round 85 = 85" by code_simp
  have c: "isInt (config_m (sample_module TEMPERATURE) ''warning-threshold'')"
    "asInt (config_m (sample_module TEMPERATURE) ''warning-threshold'') = 60"
    "isInt (config_m (sample_module TEMPERATURE) ''critical-threshold'')"
    "asInt (config_m (sample_module TEMPERATURE) ''critical-threshold'') = 80"
    by (simp_all add: sample_module_def sample_config_def isInt_def asInt_def)
  have f: "\<not> isString (config_m (sample_module TEMPERATURE) ''format-critical'')"
    by (simp add: sample_module_def sample_config_def isString_def)
  have g: "format_m (sample_module TEMPERATURE) = default_format" "default_format \<noteq> []"
    by (simp_all add: sample_module_def default_format_def)
  have s: "style_classes (fst (update Linux sample_env (sample_fs ''85000'')
     (sample_module TEMPERATURE) blank_display)) = {''critical''}" by code_simp
  have h: "0 \<le> std_round 85" "std_round 85 < 65536"
    "asInt (config_m (sample_module TEMPERATURE) ''warning-threshold'') \<le> std_round 85"
    "asInt (config_m (sample_module TEMPERATURE) ''critical-threshold'') \<le> std_round 85"
    by (simp_all add: r c)
  show ?thesis
    using critical_takes_precedence [OF sample_reading_85 h(1,2) c(1) h(3) c(3) h(4), of blank_display]
      critical_takes_precedence [OF sample_reading_85 h(1,2) c(1) h(3) c(3) h(4),
        of "blank_display\<lparr>style_classes := {''warning''}\<rparr>"] r f g s
    by (simp add: Let_def sample_env_def)
qed

text \<open>
  A tick that is not critical does keep the two classes apart: it clears \<open>critical\<close>, and
  it sets or clears \<open>warning\<close> as the tick classifies.
\<close>

lemma non_critical_tick_classes:
  assumes "\<not> isCritical t r"
  shows "style_classes (fst (render ev t r d)) =
    (if isWarning t r then insert ''warning'' (style_classes d - {''critical''})
     else style_classes d - {''critical''} - {''warning''})"
  using assms
  by (simp add: style_classes_render select_format_def Let_def add_class_def remove_class_def)

text \<open>
  C3: after a tick at most one of the classes \<open>critical\<close> and \<open>warning\<close> should be set.
  The code does not keep this: a tick at 70 (warning) followed by a tick at 85 (critical)
  leaves both classes set, because the critical branch (lines 77 to 79) adds \<open>critical\<close>
  and does not remove \<open>warning\<close>, while the other branch (lines 81 to 87) does clear
  \<open>critical\<close> before it sets \<open>warning\<close>.
\<close>

theorem warning_class_survives_critical_tick:
  "style_classes (fst (update Linux sample_env (sample_fs ''85000'') (sample_module TEMPERATURE)
     (fst (update Linux sample_env (sample_fs ''70000'') (sample_module TEMPERATURE)
        blank_display))))
   = {''critical'', ''warning''}"
  by code_simp

subsection \<open>Hiding and showing\<close>

text \<open>
  C4: on every tick that reads the sensor, an empty selected template hides the surface,
  renders nothing (label text and tooltip stay as they were) and ends the tick without an
  error; a selected template that is not empty shows the surface. The selected template
  is whichever of the critical, warning and base templates lines 76 to 88 pick, so this
  holds in each classification state.
\<close>

theorem empty_template_hides:
  assumes "getReadings pf ev fs t = Inr v"
  shows "let readings = to_uint16 (std_round v);
             selected = fst (select_format t (isCritical t readings) (isWarning t readings) d);
             d' = fst (update pf ev fs t d)
         in (selected = [] \<longrightarrow>
               \<not> event_box_shown d' \<and> label_markup d' = label_markup d \<and>
               label_tooltip d' = label_tooltip d \<and> snd (update pf ev fs t d) = None) \<and>
            (selected \<noteq> [] \<longrightarrow> event_box_shown d')"
  using assms
  by (simp add: update_def Let_def render_empty render_nonempty select_format_keeps)

theorem empty_template_hides_witness:
  "event_box_shown (fst (update Linux sample_env (sample_fs ''85000'')
     (sample_module TEMPERATURE) blank_display)) \<and>
   \<not> event_box_shown (fst (update Linux sample_env (sample_fs ''85000'')
     ((sample_module TEMPERATURE)\<lparr>format_m := []\<rparr>) (blank_display\<lparr>event_box_shown := True\<rparr>)))"
proof -
  let ?t = "(sample_module TEMPERATURE)\<lparr>format_m := []\<rparr>"
  have r: "getReadings Linux sample_env (sample_fs ''85000'') ?t = Inr 85"
    by code_simp
  have c: "isCritical (sample_module TEMPERATURE) 85" "isCritical ?t 85"
    by (simp_all add: isCritical_def sample_module_def sample_config_def isInt_def asInt_def)
  have f: "\<not> isString (config_m (sample_module TEMPERATURE) ''format-critical'')"
    "\<not> isString (config_m ?t ''format-critical'')"
    by (simp_all add: sample_module_def sample_config_def isString_def)
  have g: "format_m (sample_module TEMPERATURE) \<noteq> []"
    by (simp add: sample_module_def default_format_def)
  show ?thesis
    using empty_template_hides [OF sample_reading_85, of blank_display]
      empty_template_hides [OF r, of "blank_display\<lparr>event_box_shown := True\<rparr>"] c f g
    by (simp add: Let_def sample_rounded_85 select_format_critical)
qed

subsection \<open>Unit conversion\<close>

text \<open>
  The claim that Fahrenheit and Kelvin are rounded from the unrounded Celsius value fails
  at the raw reading 45400: the tick shows 45, 113 and 318, where
  \<open>round (45.4 * 1.8 + 32) = 114\<close> and \<open>round (45.4 + 273.15) = 319\<close>.
\<close>

theorem fahrenheit_kelvin_from_rounded_celsius:
  "label_markup (fst (update Linux printing_env (sample_fs ''45400'')
      (sample_module TEMPERATURE) blank_display)) = ''45 113 318 0 0'' \<and>
   std_round (45400 / 1000 * (9 / 5) + 32) = 114 \<and>
   std_round (45400 / 1000 + 27315 / 100) = 319"
  by code_simp

text \<open>
  C1, amended: for a raw temperature \<open>r\<close> from 0 to 32767499 milli-Celsius, Celsius is
  \<open>round (r / 1000)\<close>, and Fahrenheit and Kelvin are computed from that rounded Celsius
  integer \<open>c\<close>: Fahrenheit is \<open>round (c * 1.8 + 32)\<close> and Kelvin is
  \<open>round (c + 273.15)\<close>. Here \<open>round\<close> is exact rounding to the nearest integer,
  halves away from zero; the floating-point computation of the code agrees with it on this
  range, and none of the three values wraps.
\<close>

theorem temperature_units:
  assumes "sensor_type_m t = TEMPERATURE"
    and "open_ifstream fs (file_path_m t) = OpenGood content"
    and "strtol (getline content) = r"
    and "0 \<le> r" and "r \<le> 32767499"
  shows "let c = std_round (of_int r / 1000);
             a = render_args TEMPERATURE (word_of_int c) ic
         in update Linux ev fs t d = render ev t (word_of_int c) d \<and>
            uint (arg_temperatureC a) = c \<and>
            uint (arg_temperatureF a) = std_round (of_int c * (9 / 5) + 32) \<and>
            uint (arg_temperatureK a) = std_round (of_int c + 27315 / 100)"
proof -
  define c where "c = (r + 500) div 1000"
  have c: "0 \<le> c" "c \<le> 32767" using assms(4,5) by (simp_all add: c_def)
  have ce: "std_round (of_int r / 1000) = c"
    using std_round_exact_quotient [of r 500 1000] assms(4) by (simp add: c_def)
  have rd: "getReadings Linux ev fs t = Inr (to_float (to_double (to_double (of_int r) / 1000)))"
    using assms(1,2,3) by (simp add: getReadings_def)
  have upd: "update Linux ev fs t d = render ev t (word_of_int c) d"
    using celsius_rounding [OF assms(4,5)] c by (simp add: update_def rd to_uint16_in_range c_def)
  have u: "uint (word_of_int c :: 16 word) = c"
    using c by (simp add: uint_word_of_int)
  have f: "uint (fahrenheit (word_of_int c)) = (18 * c + 325) div 10"
    using c by (simp add: fahrenheit_closed u uint_word_of_int)
  have "kelvin (word_of_int c) = word_of_int (c + 273)" by (simp add: kelvin_closed)
  moreover have "uint (word_of_int (c + 273) :: 16 word) = c + 273"
    unfolding uint_word_of_int using c by simp
  ultimately have k: "uint (kelvin (word_of_int c)) = c + 273" by (simp only:)
  have f': "uint (fahrenheit (word_of_int c)) = std_round (of_int c * (9 / 5) + 32)"
    using f std_round_exact_fahrenheit [OF c(1)] by (simp only:)
  have k': "uint (kelvin (word_of_int c)) = std_round (of_int c + 27315 / 100)"
    using k std_round_exact_kelvin [of c] by (simp only:)
  show ?thesis
    unfolding ce Let_def
    using upd u f' k' by (simp add: render_args_def)
qed


theorem temperature_units_witness:
  "strtol (getline ''45400'') = 45400 \<and>
   update Linux sample_env (sample_fs ''45400'') (sample_module TEMPERATURE) blank_display =
     render sample_env (sample_module TEMPERATURE) 45 blank_display \<and>
   uint (arg_temperatureF (render_args TEMPERATURE 45 None)) = 113 \<and>
   uint (arg_temperatureK (render_args TEMPERATURE 45 None)) = 318"
proof -
  have s: "strtol (getline ''45400'') = 45400" by code_simp
  have c: "std_round (45400 / 1000) = 45" by code_simp
  have f: "std_round (45 * (9 / 5) + 32) = 113" by code_simp
  have k: "std_round (45 + 27315 / 100) = 318" by code_simp
  show ?thesis
    using temperature_units [OF sample_kind sample_streams s, of None sample_env blank_display] s c f k
    by (simp add: Let_def)
qed

text \<open>
  The claim has 999,999 microwatts shown as 0 W. The tick shows 1.
\<close>

theorem watts_999999_is_one:
  "label_markup (fst (update Linux printing_env (sample_fs ''999999'')
      (sample_module POWER) blank_display)) = ''0 0 0 0 1''"
  by code_simp

text \<open>
  C9, amended: for the kind Power and a raw reading \<open>r\<close> from 0 to 31,499,999, the
  Watts shown are \<open>r / 1,000,000\<close> rounded to the nearest integer, halves away from
  zero, that is \<open>(r + 500,000) div 1,000,000\<close>; so 1,250,000 gives 1 and 999,999 gives 1.
  (From 32 W on the quotient is first rounded to single precision, which can move a
  value just below a half onto it.)
\<close>

theorem watts_rounded_to_nearest:
  assumes "sensor_type_m t = POWER"
    and "open_ifstream fs (file_path_m t) = OpenGood content"
    and "strtol (getline content) = r"
    and "0 \<le> r" and "r \<le> 31499999"
  shows "let w = std_round (of_int r / 1000000);
             a = render_args POWER (word_of_int w) ic
         in update Linux ev fs t d = render ev t (word_of_int w) d \<and>
            uint (arg_power a) = w \<and> w = (r + 500000) div 1000000"
proof -
  define w where "w = (r + 500000) div 1000000"
  have w: "0 \<le> w" "w \<le> 31" using assms(4,5) by (simp_all add: w_def)
  have we: "std_round (of_int r / 1000000) = w"
    using std_round_exact_quotient [of r 500000 1000000] assms(4) by (simp add: w_def)
  have rd: "getReadings Linux ev fs t = Inr (to_float (to_double (to_double (of_int r) / 1000000)))"
    using assms(1,2,3) by (simp add: getReadings_def)
  have upd: "update Linux ev fs t d = render ev t (word_of_int w) d"
    using watts_rounding [OF assms(4,5)] w by (simp add: update_def rd to_uint16_in_range w_def)
  have u: "uint (word_of_int w :: 16 word) = w"
    using w by (simp add: uint_word_of_int)
  show ?thesis
    unfolding we Let_def using upd u by (simp add: render_args_def w_def)
qed

theorem watts_rounded_to_nearest_witness:
  "update Linux sample_env (sample_fs ''1250000'') (sample_module POWER) blank_display =
     render sample_env (sample_module POWER) 1 blank_display \<and>
   update Linux sample_env (sample_fs ''999999'') (sample_module POWER) blank_display =
     render sample_env (sample_module POWER) 1 blank_display \<and>
   uint (arg_power (render_args POWER 1 None)) = 1"
proof -
  have s: "strtol (getline ''1250000'') = 1250000" "strtol (getline ''999999'') = 999999"
    by code_simp+
  have w: "std_round (1250000 / 1000000) = 1" "std_round (999999 / 1000000) = 1" by code_simp+
  show ?thesis
    using watts_rounded_to_nearest [OF sample_kind sample_streams s(1), of None sample_env blank_display]
      watts_rounded_to_nearest [OF sample_kind sample_streams s(2), of None sample_env blank_display] w
    by (simp add: Let_def)
qed

subsection \<open>The 16-bit reading\<close>

text \<open>
  The claim that the value used is always the rounded reading modulo \<open>2 ^ 16\<close> fails
  beyond the 32-bit range: a fan at 2147483904 (\<open>2 ^ 31 + 256\<close>) is stored as 0, not as
  256, and the tick is not even a warning.
\<close>

theorem reading_beyond_32_bits_is_zero:
  "getReadings Linux sample_env (sample_fs ''2147483904'') (sample_module FAN) = Inr 2147483904 \<and>
   std_round 2147483904 mod 65536 = 256 \<and>
   to_uint16 (std_round 2147483904) = 0 \<and>
   label_markup (fst (update Linux printing_env (sample_fs ''2147483904'') (sample_module FAN)
     blank_display)) = ''0 0 0 0 0'' \<and>
   style_classes (fst (update Linux printing_env (sample_fs ''2147483904'') (sample_module FAN)
     blank_display)) = {}"
  by code_simp

text \<open>
  C10, amended: the rounded reading is stored in a \<^verbatim>\<open>uint16_t\<close>, so for every tick
  whose rounded reading lies in the 32-bit range, from \<open>- 2 ^ 31\<close> up to but excluding
  \<open>2 ^ 31\<close>, the value that is classified against the thresholds and substituted into
  the templates is the rounded reading modulo \<open>2 ^ 16\<close>; whenever the rounded reading is
  negative or at least 65536 this differs from the true reading.
\<close>

theorem readings_reduced_mod_65536:
  assumes "getReadings pf ev fs t = Inr v"
    and "- 2147483648 \<le> std_round v" and "std_round v < 2147483648"
  shows "let readings = to_uint16 (std_round v) in
           uint readings = std_round v mod 65536 \<and>
           update pf ev fs t d = render ev t readings d \<and>
           isWarning t readings =
             (isInt (config_m t ''warning-threshold'') \<and>
              asInt (config_m t ''warning-threshold'') \<le> std_round v mod 65536) \<and>
           isCritical t readings =
             (isInt (config_m t ''critical-threshold'') \<and>
              asInt (config_m t ''critical-threshold'') \<le> std_round v mod 65536) \<and>
           arg_temperatureC (render_args TEMPERATURE readings ic) = readings \<and>
           arg_fan (render_args FAN readings ic) = readings \<and>
           arg_power (render_args POWER readings ic) = readings \<and>
           (std_round v < 0 \<or> 65536 \<le> std_round v \<longrightarrow> uint readings \<noteq> std_round v)"
proof -
  have "to_uint16 (std_round v) = word_of_int (std_round v)"
    using assms(2,3) by (intro to_uint16_in_range) simp_all
  then have u: "uint (to_uint16 (std_round v)) = std_round v mod 65536"
    by (simp add: uint_word_of_int)
  have "0 \<le> std_round v mod 65536" "std_round v mod 65536 < 65536" by simp_all
  then have ne: "std_round v < 0 \<or> 65536 \<le> std_round v \<longrightarrow> std_round v mod 65536 \<noteq> std_round v"
    by linarith
  show ?thesis
    unfolding Let_def isWarning_def isCritical_def u
    using assms(1) ne by (simp add: update_def render_args_def)
qed

text \<open>At -5 degrees the value classified is 65531, and the tick is critical.\<close>

theorem readings_reduced_mod_65536_witness:
  "getReadings Linux sample_env (sample_fs ''-5000'') (sample_module TEMPERATURE) = Inr (- 5) \<and>
   uint (to_uint16 (std_round (- 5))) = 65531 \<and>
   isCritical (sample_module TEMPERATURE) (to_uint16 (std_round (- 5))) \<and>
   style_classes (fst (update Linux sample_env (sample_fs ''-5000'') (sample_module TEMPERATURE)
     blank_display)) = {''critical''}"
proof -
  have r: "getReadings Linux sample_env (sample_fs ''-5000'') (sample_module TEMPERATURE) = Inr (- 5)"
    by code_simp
  have m: "std_round (- 5) mod 65536 = 65531" by code_simp
  have b: "- 2147483648 \<le> std_round (- 5)" "std_round (- 5) < 2147483648" by code_simp+
  have c: "isInt (config_m (sample_module TEMPERATURE) ''critical-threshold'')"
    "asInt (config_m (sample_module TEMPERATURE) ''critical-threshold'') = 80"
    by (simp_all add: sample_module_def sample_config_def isInt_def asInt_def)
  have s: "style_classes (fst (update Linux sample_env (sample_fs ''-5000'')
     (sample_module TEMPERATURE) blank_display)) = {''critical''}" by code_simp
  show ?thesis
    using readings_reduced_mod_65536 [OF r b, of blank_display None] r m c s by (simp add: Let_def)
qed

subsection \<open>Resolving the sensor file\<close>









subsection \<open>Errors of construction\<close>















subsection \<open>Malformed content\<close>

text \<open>
  The claim that a line which is no number makes the tick fail does not hold: on the line
  \<^verbatim>\<open>abc\<close> the tick ends without an error and shows 0 degrees.
\<close>

theorem malformed_line_reads_as_zero:
  "update Linux printing_env (sample_fs ''abc'') (sample_module TEMPERATURE) blank_display =
     (\<lparr>style_classes = {}, event_box_shown = True, label_markup = ''0 32 273 0 0'',
       label_tooltip = []\<rparr>, None)"
  by code_simp

lemma strtol_no_digits: "subject_digits s = [] \<Longrightarrow> strtol s = 0"
  by (simp add: strtol_def Let_def digits_val_def LONG_MIN_def LONG_MAX_def)

lemma to_float_zero: "to_float 0 = 0" "to_double 0 = 0"
  by (simp_all add: to_float_def to_double_def fl_zero)

text \<open>
  C7, amended: once the file opens in a good state, the read of a tick never fails,
  whatever the line holds; \<^verbatim>\<open>strtol\<close> converts the leading digits and ignores the
  rest, and a line without leading digits reads as 0.
\<close>

theorem read_never_rejects_content:
  assumes "open_ifstream fs (file_path_m t) = OpenGood content"
  shows "(\<exists>v. getReadings Linux ev fs t = Inr v) \<and>
         (subject_digits (getline content) = [] \<longrightarrow> getReadings Linux ev fs t = Inr 0)"
  using assms
  by (cases "sensor_type_m t") (simp_all add: getReadings_def strtol_no_digits to_float_zero)

theorem read_never_rejects_content_witness:
  "subject_digits (getline ''abc'') = [] \<and>
   getReadings Linux sample_env (sample_fs ''abc'') (sample_module TEMPERATURE) = Inr 0"
proof -
  have s: "subject_digits (getline ''abc'') = []" by code_simp
  show ?thesis
    using read_never_rejects_content [of "sample_fs ''abc''" "sample_module TEMPERATURE" "''abc''" sample_env,
        OF sample_streams] s
    by simp
qed

subsection \<open>Construction on FreeBSD\<close>

text \<open>
  C6: on FreeBSD a kind other than temperature should end construction with an error. The
  code does not do this: with \<^verbatim>\<open>type\<close> set to \<^verbatim>\<open>fan\<close> the constructor succeeds and
  the object has the kind \<open>TEMPERATURE\<close>, because lines 15 to 19, which read the key, are
  compiled out; and the tick then reads the processor temperature (30 degrees here)
  instead of throwing at lines 151 and 152.
\<close>

theorem freebsd_fan_constructs:
  "Temperature_new FreeBSD (sample_fs []) (sample_config ''fan'') =
     Inr \<lparr>config_m = sample_config ''fan'', format_m = default_format, file_path_m = [],
          sensor_type_m = TEMPERATURE\<rparr> \<and>
   getReadings FreeBSD bsd_env (sample_fs [])
     \<lparr>config_m = sample_config ''fan'', format_m = default_format, file_path_m = [],
      sensor_type_m = TEMPERATURE\<rparr> = Inr 30"
proof -
  have "getReadings FreeBSD bsd_env (sample_fs [])
     \<lparr>config_m = sample_config ''fan'', format_m = default_format, file_path_m = [],
      sensor_type_m = TEMPERATURE\<rparr> = Inr 30"
    by code_simp
  then show ?thesis
    by (simp add: Temperature_new_def ALabel_format_def sample_config_def isString_def)
qed

text \<open>
  The guard of lines 151 and 152 never fires on an object that the FreeBSD constructor
  has built.
\<close>

lemma freebsd_guard_never_fires:
  assumes "Temperature_new FreeBSD fs cfg = Inr t"
  shows "sensor_type_m t = TEMPERATURE" and "getReadings FreeBSD ev fs t \<noteq> Inl only_temperature"
proof -
  show k: "sensor_type_m t = TEMPERATURE" using assms by (auto simp: Temperature_new_def)
  show "getReadings FreeBSD ev fs t \<noteq> Inl only_temperature"
    by (simp add: getReadings_def k Let_def only_temperature_def sysctl_failed_def
        split: option.splits)
qed

end
